theory Spec2Isabelle
  imports Main "HOL-Library.Word"
begin

section \<open>JavaScript values\<close>

text \<open>
  A JavaScript string is a sequence of UTF-16 code units. The literals of the sources
  are Russian; each is given below by its code units, with a transliteration.
  \<open>ascii\<close> embeds an ASCII literal.
\<close>

type_synonym jsstring = "16 word list"

definition ascii :: "string \<Rightarrow> jsstring" where
  "ascii s = map of_char s"

text \<open>
  A \<open>number\<close> option of the request is a step count. The model keeps the integers and
  \<open>NaN\<close>, the values on which truthiness differs; an absent (\<open>undefined\<close>) property is
  \<open>None\<close> of an option type.
\<close>

datatype number = NaN | Num int

definition truthy_string :: "jsstring \<Rightarrow> bool" where
  "truthy_string s = (s \<noteq> [])"

fun truthy_number :: "number \<Rightarrow> bool" where
  "truthy_number NaN = False"
| "truthy_number (Num n) = (n \<noteq> 0)"

text \<open>
  \<open>undefined\<close> is falsy. \<open>a || b\<close> is the left operand when it is truthy, the right
  one otherwise: \<open>js_or\<close> is the operator on operands that may be \<open>undefined\<close>;
  \<open>or_default\<close> is the same with a right operand that is always defined.
\<close>

definition truthy_opt :: "('a \<Rightarrow> bool) \<Rightarrow> 'a option \<Rightarrow> bool" where
  "truthy_opt truthy a = (case a of None \<Rightarrow> False | Some v \<Rightarrow> truthy v)"

definition js_or :: "('a \<Rightarrow> bool) \<Rightarrow> 'a option \<Rightarrow> 'a option \<Rightarrow> 'a option" where
  "js_or truthy a b = (if truthy_opt truthy a then a else b)"

definition or_default :: "('a \<Rightarrow> bool) \<Rightarrow> 'a option \<Rightarrow> 'a \<Rightarrow> 'a" where
  "or_default truthy a d = (case a of None \<Rightarrow> d | Some v \<Rightarrow> if truthy v then v else d)"

text \<open>
  \<open>String.prototype.trim\<close> removes the WhiteSpace and LineTerminator code units of
  ECMAScript from both ends.
\<close>

definition is_whitespace :: "16 word \<Rightarrow> bool" where
  "is_whitespace u =
     (u = 0x9 \<or> u = 0xA \<or> u = 0xB \<or> u = 0xC \<or> u = 0xD \<or> u = 0x20 \<or> u = 0xA0 \<or>
      u = 0x1680 \<or> (0x2000 \<le> u \<and> u \<le> 0x200A) \<or> u = 0x2028 \<or> u = 0x2029 \<or>
      u = 0x202F \<or> u = 0x205F \<or> u = 0x3000 \<or> u = 0xFEFF)"

definition trim :: "jsstring \<Rightarrow> jsstring" where
  "trim s = rev (dropWhile is_whitespace (rev (dropWhile is_whitespace s)))"

text \<open>
  \<open>Array.prototype.join\<close>: the elements separated by \<open>sep\<close>; an \<open>undefined\<close> element
  is rendered as the empty string.
\<close>

fun join :: "jsstring \<Rightarrow> jsstring option list \<Rightarrow> jsstring" where
  "join sep [] = []"
| "join sep [x] = (case x of None \<Rightarrow> [] | Some s \<Rightarrow> s)"
| "join sep (x # y # ys) = (case x of None \<Rightarrow> [] | Some s \<Rightarrow> s) @ sep @ join sep (y # ys)"

section \<open>The agent client (\<open>BrowserAgentService\<close>)\<close>

subsection \<open>Request and response types\<close>

record RunResponse =
  result :: jsstring

record TaskResponse =
  resp_task_id :: jsstring
  resp_status :: jsstring
  resp_message :: jsstring

record StepResult =
  content :: "jsstring option"
  error :: "jsstring option"
  url :: "jsstring option"
  title :: "jsstring option"

text \<open>
  \<open>results\<close> is an option: \<open>combineResults\<close> tests \<open>!results\<close>, so the client expects
  snapshots that lack the property.
\<close>

record TaskResult =
  task_id :: jsstring
  status :: jsstring
  steps :: number
  results :: "StepResult list option"
  task_error :: "jsstring option"

record CancelResponse =
  cancel_status :: jsstring
  cancel_task_id :: jsstring

text \<open>The \<open>options\<close> parameter of \<open>runTask\<close> and of \<open>createTask\<close>.\<close>

record run_options =
  model :: "jsstring option"
  provider :: "jsstring option"
  max_steps :: "number option"

record task_options = run_options +
  use_vision :: "bool option"

text \<open>The JSON bodies that the two POST requests send.\<close>

record run_body =
  body_task :: jsstring
  body_headless :: bool
  body_model :: jsstring
  body_provider :: jsstring
  body_max_steps :: number

record task_body = run_body +
  body_use_vision :: bool

text \<open>
  A request as it leaves the client: the method with its path, and the body when there
  is one. The path \<open>/task/${taskId}\<close> is given by its task id.
\<close>

datatype request =
    POST_run run_body
  | POST_task task_body
  | GET_task jsstring
  | DELETE_task jsstring

text \<open>
  What comes back from axios: the promise resolves with the response data, or it
  rejects (no connection, a status outside 2xx). Every operation of the client turns a
  rejection into \<open>new Error(message)\<close> with its own fixed message.
\<close>

datatype 'a http = Rejected | Resolved 'a

datatype js_error = Error jsstring

subsection \<open>Literals\<close>

definition default_model :: jsstring where
  "default_model = ascii ''gpt-4.1-nano-2025-04-14''"

definition default_provider :: jsstring where
  "default_provider = ascii ''openai''"

definition default_max_steps :: number where
  "default_max_steps = Num 5"

definition run_error_text :: jsstring where
  \<comment> \<open>"Oshibka pri vypolnenii zadachi" (error while running the task)\<close>
  "run_error_text =
     [0x41E, 0x448, 0x438, 0x431, 0x43A, 0x430, 0x20, 0x43F, 0x440, 0x438, 0x20, 0x432,
      0x44B, 0x43F, 0x43E, 0x43B, 0x43D, 0x435, 0x43D, 0x438, 0x438, 0x20, 0x437, 0x430,
      0x434, 0x430, 0x447, 0x438]"

definition create_error_text :: jsstring where
  \<comment> \<open>"Oshibka pri sozdanii zadachi" (error while creating the task)\<close>
  "create_error_text =
     [0x41E, 0x448, 0x438, 0x431, 0x43A, 0x430, 0x20, 0x43F, 0x440, 0x438, 0x20, 0x441,
      0x43E, 0x437, 0x434, 0x430, 0x43D, 0x438, 0x438, 0x20, 0x437, 0x430, 0x434, 0x430,
      0x447, 0x438]"

definition status_error_text :: jsstring where
  \<comment> \<open>"Oshibka pri poluchenii statusa zadachi" (error while fetching the task status)\<close>
  "status_error_text =
     [0x41E, 0x448, 0x438, 0x431, 0x43A, 0x430, 0x20, 0x43F, 0x440, 0x438, 0x20, 0x43F,
      0x43E, 0x43B, 0x443, 0x447, 0x435, 0x43D, 0x438, 0x438, 0x20, 0x441, 0x442, 0x430,
      0x442, 0x443, 0x441, 0x430, 0x20, 0x437, 0x430, 0x434, 0x430, 0x447, 0x438]"

definition cancel_error_text :: jsstring where
  \<comment> \<open>"Oshibka pri otmene zadachi" (error while cancelling the task)\<close>
  "cancel_error_text =
     [0x41E, 0x448, 0x438, 0x431, 0x43A, 0x430, 0x20, 0x43F, 0x440, 0x438, 0x20, 0x43E,
      0x442, 0x43C, 0x435, 0x43D, 0x435, 0x20, 0x437, 0x430, 0x434, 0x430, 0x447, 0x438]"

definition no_results_text :: jsstring where
  \<comment> \<open>"Net rezul'tatov" (no results)\<close>
  "no_results_text =
     [0x41D, 0x435, 0x442, 0x20, 0x440, 0x435, 0x437, 0x443, 0x43B, 0x44C, 0x442, 0x430,
      0x442, 0x43E, 0x432]"

definition blank_line :: jsstring where
  \<comment> \<open>the separator \<open>"\n\n"\<close>\<close>
  "blank_line = [0xA, 0xA]"

subsection \<open>Operations\<close>

text \<open>
  Each network operation returns the request it issues together with what its promise
  settles to: \<open>Inr\<close> the value it resolves with, \<open>Inl\<close> the error it throws. The
  answer of the server is an argument. The parameters \<open>headless\<close> and \<open>options\<close>
  have default values, taken when the argument is omitted (\<open>None\<close>).
\<close>

definition runTask ::
  "jsstring \<Rightarrow> bool option \<Rightarrow> run_options option \<Rightarrow> RunResponse http
     \<Rightarrow> request \<times> (js_error + jsstring)" where
  "runTask task_text headless_arg options_arg response =
     (let headless = (case headless_arg of None \<Rightarrow> True | Some h \<Rightarrow> h);
          options = (case options_arg of
                       None \<Rightarrow> \<lparr>model = None, provider = None, max_steps = None\<rparr>
                     | Some opts \<Rightarrow> opts)
      in (POST_run
            \<lparr>body_task = task_text,
             body_headless = headless,
             body_model = or_default truthy_string (model options) default_model,
             body_provider = or_default truthy_string (provider options) default_provider,
             body_max_steps = or_default truthy_number (max_steps options) default_max_steps\<rparr>,
          case response of
            Resolved data \<Rightarrow> Inr (result data)
          | Rejected \<Rightarrow> Inl (Error run_error_text)))"

definition createTask ::
  "jsstring \<Rightarrow> bool option \<Rightarrow> task_options option \<Rightarrow> TaskResponse http
     \<Rightarrow> request \<times> (js_error + jsstring)" where
  "createTask task_text headless_arg options_arg response =
     (let headless = (case headless_arg of None \<Rightarrow> False | Some h \<Rightarrow> h);
          options = (case options_arg of
                       None \<Rightarrow> \<lparr>model = None, provider = None, max_steps = None,
                                 use_vision = None\<rparr>
                     | Some opts \<Rightarrow> opts)
      in (POST_task
            \<lparr>body_task = task_text,
             body_headless = headless,
             body_model = or_default truthy_string (model options) default_model,
             body_provider = or_default truthy_string (provider options) default_provider,
             body_max_steps = or_default truthy_number (max_steps options) default_max_steps,
             body_use_vision = (use_vision options \<noteq> Some False)\<rparr>,
          case response of
            Resolved data \<Rightarrow> Inr (resp_task_id data)
          | Rejected \<Rightarrow> Inl (Error create_error_text)))"

definition getTaskStatus ::
  "jsstring \<Rightarrow> TaskResult http \<Rightarrow> request \<times> (js_error + TaskResult)" where
  "getTaskStatus tid response =
     (GET_task tid,
      case response of
        Resolved data \<Rightarrow> Inr data
      | Rejected \<Rightarrow> Inl (Error status_error_text))"

definition cancelTask ::
  "jsstring \<Rightarrow> CancelResponse http \<Rightarrow> request \<times> (js_error + CancelResponse)" where
  "cancelTask tid response =
     (DELETE_task tid,
      case response of
        Resolved data \<Rightarrow> Inr data
      | Rejected \<Rightarrow> Inl (Error cancel_error_text))"

text \<open>
  \<open>combineResults\<close>: absent or empty results give the fixed text; otherwise the steps
  with a truthy \<open>content\<close> are kept, their \<open>content\<close> is taken, and the texts are joined.
\<close>

definition combineResults :: "StepResult list option \<Rightarrow> jsstring" where
  "combineResults results_arg =
     (case results_arg of
        None \<Rightarrow> no_results_text
      | Some rs \<Rightarrow>
          if length rs = 0 then no_results_text
          else join blank_line
                 (map content
                    (filter (\<lambda>step. truthy_opt truthy_string (content step)) rs)))"

section \<open>The conversation controller (\<open>Home\<close>)\<close>

subsection \<open>State\<close>

datatype MessageType = User | Assistant | System

record Message =
  msg_type :: MessageType
  msg_content :: jsstring
  msg_timestamp :: nat
  msg_id :: jsstring

text \<open>
  An interval started by \<open>setInterval\<close>: its handle and the variables that its callback
  has captured.
\<close>

record interval =
  handle :: nat
  newTaskId :: jsstring
  loadingMsgId :: jsstring

text \<open>
  A run of the interval callback that is suspended at its \<open>await\<close>: the status
  request has been sent and the answer is outstanding. \<open>caller\<close> holds the variables
  that the callback has captured.
\<close>

record poll =
  ticket :: nat
  caller :: interval

text \<open>
  The five state variables of the component, followed by what its handlers act on
  outside the component: the intervals that are running, the handle that the next
  \<open>setInterval\<close> returns, the requests sent so far, the status polls that wait for
  their answer, and the ticket of the next poll.
\<close>

record page =
  task :: jsstring
  messages :: "Message list"
  loading :: bool
  taskId :: "jsstring option"
  showBrowser :: bool
  intervals :: "interval list"
  next_handle :: nat
  requests :: "request list"
  polls :: "poll list"
  next_ticket :: nat

definition initial :: page where
  "initial =
     \<lparr>task = [], messages = [], loading = False, taskId = None, showBrowser = False,
      intervals = [], next_handle = 1, requests = [], polls = [], next_ticket = 1\<rparr>"

text \<open>
  What \<open>addMessage\<close> reads from the environment: \<open>Date.now()\<close>, the digits
  \<open>Math.random().toString(36).substr(2, 9)\<close>, and \<open>new Date()\<close>.
\<close>

record entropy =
  date_now :: nat
  random_digits :: jsstring
  new_date :: nat

fun decimal :: "nat \<Rightarrow> jsstring" where
  "decimal n =
     (if n < 10 then [of_nat (48 + n)]
      else decimal (n div 10) @ [of_nat (48 + n mod 10)])"

subsection \<open>Literals\<close>

definition running_text :: jsstring where
  \<comment> \<open>"Vypolnyayu zadachu..." (running the task)\<close>
  "running_text =
     [0x412, 0x44B, 0x43F, 0x43E, 0x43B, 0x43D, 0x44F, 0x44E, 0x20, 0x437, 0x430, 0x434,
      0x430, 0x447, 0x443, 0x2E, 0x2E, 0x2E]"

definition run_failed_text :: jsstring where
  \<comment> \<open>"Oshibka pri vypolnenii zadachi" (error while running the task)\<close>
  "run_failed_text =
     [0x41E, 0x448, 0x438, 0x431, 0x43A, 0x430, 0x20, 0x43F, 0x440, 0x438, 0x20, 0x432,
      0x44B, 0x43F, 0x43E, 0x43B, 0x43D, 0x435, 0x43D, 0x438, 0x438, 0x20, 0x437, 0x430,
      0x434, 0x430, 0x447, 0x438]"

definition opening_text :: jsstring where
  \<comment> \<open>"Otkryvayu brauzer i vypolnyayu zadachu..." (opening the browser and running the task)\<close>
  "opening_text =
     [0x41E, 0x442, 0x43A, 0x440, 0x44B, 0x432, 0x430, 0x44E, 0x20, 0x431, 0x440, 0x430,
      0x443, 0x437, 0x435, 0x440, 0x20, 0x438, 0x20, 0x432, 0x44B, 0x43F, 0x43E, 0x43B,
      0x43D, 0x44F, 0x44E, 0x20, 0x437, 0x430, 0x434, 0x430, 0x447, 0x443, 0x2E, 0x2E, 0x2E]"

definition no_output_text :: jsstring where
  \<comment> \<open>"Zadacha vypolnena bez rezul'tatov" (task completed with no results)\<close>
  "no_output_text =
     [0x417, 0x430, 0x434, 0x430, 0x447, 0x430, 0x20, 0x432, 0x44B, 0x43F, 0x43E, 0x43B,
      0x43D, 0x435, 0x43D, 0x430, 0x20, 0x431, 0x435, 0x437, 0x20, 0x440, 0x435, 0x437,
      0x443, 0x43B, 0x44C, 0x442, 0x430, 0x442, 0x43E, 0x432]"

definition poll_failed_text :: jsstring where
  \<comment> \<open>"Oshibka pri proverke statusa zadachi" (error while checking the task status)\<close>
  "poll_failed_text =
     [0x41E, 0x448, 0x438, 0x431, 0x43A, 0x430, 0x20, 0x43F, 0x440, 0x438, 0x20, 0x43F,
      0x440, 0x43E, 0x432, 0x435, 0x440, 0x43A, 0x435, 0x20, 0x441, 0x442, 0x430, 0x442,
      0x443, 0x441, 0x430, 0x20, 0x437, 0x430, 0x434, 0x430, 0x447, 0x438]"

definition start_failed_text :: jsstring where
  \<comment> \<open>"Oshibka pri zapuske zadachi" (error while starting the task)\<close>
  "start_failed_text =
     [0x41E, 0x448, 0x438, 0x431, 0x43A, 0x430, 0x20, 0x43F, 0x440, 0x438, 0x20, 0x437,
      0x430, 0x43F, 0x443, 0x441, 0x43A, 0x435, 0x20, 0x437, 0x430, 0x434, 0x430, 0x447,
      0x438]"

definition cancelled_text :: jsstring where
  \<comment> \<open>"Zadacha otmenena" (task cancelled)\<close>
  "cancelled_text =
     [0x417, 0x430, 0x434, 0x430, 0x447, 0x430, 0x20, 0x43E, 0x442, 0x43C, 0x435, 0x43D,
      0x435, 0x43D, 0x430]"

definition cancel_failed_text :: jsstring where
  \<comment> \<open>"Oshibka pri otmene zadachi" (error while cancelling the task)\<close>
  "cancel_failed_text =
     [0x41E, 0x448, 0x438, 0x431, 0x43A, 0x430, 0x20, 0x43F, 0x440, 0x438, 0x20, 0x43E,
      0x442, 0x43C, 0x435, 0x43D, 0x435, 0x20, 0x437, 0x430, 0x434, 0x430, 0x447, 0x438]"

subsection \<open>Helpers\<close>

definition message_id :: "entropy \<Rightarrow> jsstring" where
  \<comment> \<open>the template \<open>msg-${Date.now()}-${...}\<close>\<close>
  "message_id e = ascii ''msg-'' @ decimal (date_now e) @ ascii ''-'' @ random_digits e"

definition addMessage :: "entropy \<Rightarrow> jsstring \<Rightarrow> MessageType \<Rightarrow> page \<Rightarrow> jsstring \<times> page" where
  "addMessage e text ty p =
     (let new_id = message_id e
      in (new_id,
          p\<lparr>messages := messages p @
               [\<lparr>msg_type = ty, msg_content = text, msg_timestamp = new_date e,
                 msg_id = new_id\<rparr>]\<rparr>))"

definition removeMessage :: "jsstring \<Rightarrow> page \<Rightarrow> page" where
  "removeMessage mid p = p\<lparr>messages := filter (\<lambda>msg. msg_id msg \<noteq> mid) (messages p)\<rparr>"

definition setInterval :: "jsstring \<Rightarrow> jsstring \<Rightarrow> page \<Rightarrow> page" where
  \<comment> \<open>the handle that the source binds to \<open>interval\<close> is \<open>next_handle p\<close>\<close>
  "setInterval tid mid p =
     p\<lparr>intervals := intervals p @
          [\<lparr>handle = next_handle p, newTaskId = tid, loadingMsgId = mid\<rparr>],
       next_handle := Suc (next_handle p)\<rparr>"

definition clearInterval :: "nat \<Rightarrow> page \<Rightarrow> page" where
  "clearInterval h p = p\<lparr>intervals := filter (\<lambda>iv. handle iv \<noteq> h) (intervals p)\<rparr>"

definition send :: "request \<Rightarrow> page \<Rightarrow> page" where
  "send req p = p\<lparr>requests := requests p @ [req]\<rparr>"

subsection \<open>Handlers\<close>

text \<open>
  A handler is a function of the page, of the answer of the server and of the entropy
  of each message that it may add: it gives the page after the handler has run from its
  request to the settling of its promise, with nothing else happening in between.
  While the request of \<open>handleRun\<close> or of \<open>createTask\<close> is outstanding, \<open>loading\<close>
  is set, which disables the text area and the run button. The interval callback is
  different: the interval fires again whether or not an earlier status request has been
  answered, so the callback is also given in its two halves, before and after its
  \<open>await\<close>.
\<close>

definition handleRun ::
  "entropy \<Rightarrow> entropy \<Rightarrow> entropy \<Rightarrow> RunResponse http \<Rightarrow> page \<Rightarrow> page" where
  "handleRun e1 e2 e3 response p =
     (if \<not> truthy_string (trim (task p)) then p
      else
        let (user_id, p1) = addMessage e1 (task p) User p;
            p2 = p1\<lparr>loading := True\<rparr>;
            (loading_id, p3) = addMessage e2 running_text System p2;
            (req, outcome) = runTask (task p) (Some (\<not> showBrowser p)) None response;
            p4 = send req p3;
            p5 = (case outcome of
                    Inr res \<Rightarrow>
                      let q1 = removeMessage loading_id p4;
                          (answer_id, q2) = addMessage e3 res Assistant q1
                      in q2\<lparr>task := []\<rparr>
                  | Inl err \<Rightarrow>
                      let q1 = removeMessage loading_id p4;
                          (notice_id, q2) = addMessage e3 run_failed_text System q1
                      in q2)
        in p5\<lparr>loading := False\<rparr>)"

text \<open>
  The callback that \<open>handleRunWithVisibleBrowser\<close> passes to \<open>setInterval\<close>, for the
  interval \<open>iv\<close>. \<open>statusSettled\<close> is the callback from the point where the promise of
  \<open>getTaskStatus\<close> has settled to \<open>outcome\<close>; \<open>intervalCallback\<close> is the whole
  callback, the status request followed at once by the handling of its answer.
\<close>

definition statusSettled ::
  "interval \<Rightarrow> entropy \<Rightarrow> js_error + TaskResult \<Rightarrow> page \<Rightarrow> page" where
  "statusSettled iv e outcome p1 =
     (case outcome of
        Inr taskResult \<Rightarrow>
          if status taskResult = ascii ''completed'' \<or> status taskResult = ascii ''failed''
          then
            let p2 = clearInterval (handle iv) p1;
                p3 = removeMessage (loadingMsgId iv) p2;
                combinedResult = combineResults (results taskResult);
                (answer_id, p4) =
                  addMessage e
                    (or_default truthy_string
                       (js_or truthy_string (Some combinedResult) (task_error taskResult))
                       no_output_text)
                    Assistant p3;
                p5 = p4\<lparr>loading := False\<rparr>;
                p6 = p5\<lparr>taskId := None\<rparr>
            in p6\<lparr>task := []\<rparr>
          else p1
      | Inl err \<Rightarrow>
          let p2 = clearInterval (handle iv) p1;
              p3 = removeMessage (loadingMsgId iv) p2;
              (notice_id, p4) = addMessage e poll_failed_text System p3;
              p5 = p4\<lparr>loading := False\<rparr>
          in p5\<lparr>taskId := None\<rparr>)"

definition intervalCallback :: "interval \<Rightarrow> entropy \<Rightarrow> TaskResult http \<Rightarrow> page \<Rightarrow> page" where
  "intervalCallback iv e response p =
     (let (req, outcome) = getTaskStatus (newTaskId iv) response;
          p1 = send req p
      in statusSettled iv e outcome p1)"

definition handleRunWithVisibleBrowser ::
  "entropy \<Rightarrow> entropy \<Rightarrow> entropy \<Rightarrow> TaskResponse http \<Rightarrow> page \<Rightarrow> page" where
  "handleRunWithVisibleBrowser e1 e2 e3 response p =
     (if \<not> truthy_string (trim (task p)) then p
      else
        let (user_id, p1) = addMessage e1 (task p) User p;
            p2 = p1\<lparr>loading := True\<rparr>;
            (loading_id, p3) = addMessage e2 opening_text System p2;
            (req, outcome) =
              createTask (task p) (Some False)
                (Some \<lparr>model = None, provider = None, max_steps = Some (Num 5),
                       use_vision = None\<rparr>)
                response;
            p4 = send req p3
        in case outcome of
             Inr new_id \<Rightarrow>
               let p5 = p4\<lparr>taskId := Some new_id\<rparr>
               in setInterval new_id loading_id p5
           | Inl err \<Rightarrow>
               let p5 = removeMessage loading_id p4;
                   (notice_id, p6) = addMessage e3 start_failed_text System p5
               in p6\<lparr>loading := False\<rparr>)"

definition handleCancel :: "entropy \<Rightarrow> CancelResponse http \<Rightarrow> page \<Rightarrow> page" where
  "handleCancel e response p =
     (case taskId p of
        None \<Rightarrow> p
      | Some tid \<Rightarrow>
          if \<not> truthy_string tid then p
          else
            let (req, outcome) = cancelTask tid response;
                p1 = send req p
            in (case outcome of
                  Inr data \<Rightarrow>
                    let (notice_id, p2) = addMessage e cancelled_text System p1;
                        p3 = p2\<lparr>taskId := None\<rparr>
                    in p3\<lparr>loading := False\<rparr>
                | Inl err \<Rightarrow>
                    let (notice_id, p2) = addMessage e cancel_failed_text System p1
                    in p2))"

definition toggleBrowserMode :: "page \<Rightarrow> page" where
  "toggleBrowserMode p = p\<lparr>showBrowser := \<not> showBrowser p\<rparr>"

subsection \<open>Events\<close>

text \<open>
  The interval callback up to its \<open>await\<close>: \<open>getTaskStatus\<close> sends its request, which
  is \<open>GET /task/${newTaskId}\<close> whatever the answer will be, and the run of the callback
  waits for the answer under a new ticket.
\<close>

definition statusRequested :: "interval \<Rightarrow> page \<Rightarrow> page" where
  "statusRequested iv p =
     (let p1 = send (GET_task (newTaskId iv)) p
      in p1\<lparr>polls := polls p1 @ [\<lparr>ticket = next_ticket p1, caller = iv\<rparr>],
            next_ticket := Suc (next_ticket p1)\<rparr>)"

text \<open>
  The answer to the poll \<open>w\<close> arrives: the poll stops waiting and its callback goes on
  with what the promise of \<open>getTaskStatus\<close> settles to. The request itself left when the
  interval fired.
\<close>

definition statusAnswered :: "poll \<Rightarrow> entropy \<Rightarrow> TaskResult http \<Rightarrow> page \<Rightarrow> page" where
  "statusAnswered w e response p =
     (let (req, outcome) = getTaskStatus (newTaskId (caller w)) response;
          p1 = p\<lparr>polls := filter (\<lambda>other. ticket other \<noteq> ticket w) (polls p)\<rparr>
      in statusSettled (caller w) e outcome p1)"

text \<open>
  What can happen to the page, with the guards of the rendered controls: the text area
  is disabled while \<open>loading\<close>, the run button also while the trimmed text is empty,
  and the cancel button exists only while \<open>loading && taskId\<close>. The run button and the
  Enter key call \<open>handleRunWithVisibleBrowser\<close> when \<open>showBrowser\<close> is set and
  \<open>handleRun\<close> otherwise. An interval fires only while it has not been cleared, and it
  fires whether or not earlier polls have been answered: \<open>Tick h\<close> is interval \<open>h\<close>
  firing, which sends the status request, and \<open>Answer k e response\<close> is the answer to
  the poll with ticket \<open>k\<close> arriving, at any later time. An event whose guard is false
  changes nothing.
\<close>

datatype event =
    Change jsstring
  | Toggle
  | Submit entropy entropy entropy "RunResponse http"
  | SubmitVisible entropy entropy entropy "TaskResponse http"
  | Cancel entropy "CancelResponse http"
  | Tick nat
  | Answer nat entropy "TaskResult http"

fun fire :: "page \<Rightarrow> event \<Rightarrow> page" where
  "fire p (Change text) = (if loading p then p else p\<lparr>task := text\<rparr>)"
| "fire p Toggle = toggleBrowserMode p"
| "fire p (Submit e1 e2 e3 response) =
     (if loading p then p
      else if showBrowser p then p
      else handleRun e1 e2 e3 response p)"
| "fire p (SubmitVisible e1 e2 e3 response) =
     (if loading p then p
      else if showBrowser p then handleRunWithVisibleBrowser e1 e2 e3 response p
      else p)"
| "fire p (Cancel e response) =
     (if loading p \<and> truthy_opt truthy_string (taskId p) then handleCancel e response p
      else p)"
| "fire p (Tick h) =
     (case find (\<lambda>iv. handle iv = h) (intervals p) of
        None \<Rightarrow> p
      | Some iv \<Rightarrow> statusRequested iv p)"
| "fire p (Answer k e response) =
     (case find (\<lambda>w. ticket w = k) (polls p) of
        None \<Rightarrow> p
      | Some w \<Rightarrow> statusAnswered w e response p)"

definition run :: "event list \<Rightarrow> page \<Rightarrow> page" where
  "run events p = foldl fire p events"


section \<open>The specification's wording of \<open>combineResults\<close>\<close>

text \<open>
  The specification describes the result for a non-empty sequence as the contents of the
  steps that have a non-empty content, in input order, with a blank line between
  neighbours. The two definitions below say that, independently of the code.
\<close>

definition nonempty_contents :: "StepResult list \<Rightarrow> jsstring list" where
  "nonempty_contents rs =
     concat (map (\<lambda>step. case content step of
                            None \<Rightarrow> []
                          | Some c \<Rightarrow> if c = [] then [] else [c]) rs)"

fun separated_by :: "jsstring \<Rightarrow> jsstring list \<Rightarrow> jsstring" where
  "separated_by sep [] = []"
| "separated_by sep (x # xs) = x @ concat (map (\<lambda>y. sep @ y) xs)"

section \<open>Sample inputs\<close>

definition stamp :: "nat \<Rightarrow> entropy" where
  "stamp n = \<lparr>date_now = n, random_digits = ascii ''k3x'', new_date = n\<rparr>"

definition step_with :: "jsstring option \<Rightarrow> jsstring option \<Rightarrow> StepResult" where
  "step_with c e = \<lparr>content = c, error = e, url = None, title = None\<rparr>"

definition created_abc :: TaskResponse where
  "created_abc =
     \<lparr>resp_task_id = ascii ''abc'', resp_status = ascii ''pending'', resp_message = []\<rparr>"

definition created_def :: TaskResponse where
  "created_def =
     \<lparr>resp_task_id = ascii ''def'', resp_status = ascii ''pending'', resp_message = []\<rparr>"

definition running_abc :: TaskResult where
  "running_abc =
     \<lparr>task_id = ascii ''abc'', status = ascii ''running'', steps = Num 0, results = Some [],
      task_error = None\<rparr>"

definition completed_abc :: TaskResult where
  "completed_abc =
     \<lparr>task_id = ascii ''abc'', status = ascii ''completed'', steps = Num 1,
      results = Some [\<lparr>content = Some (ascii ''done''), error = None, url = None,
                       title = None\<rparr>],
      task_error = None\<rparr>"

definition silent_abc :: TaskResult where
  \<comment> \<open>a finished task whose only step has no content, and no error text\<close>
  "silent_abc =
     \<lparr>task_id = ascii ''abc'', status = ascii ''completed'', steps = Num 1,
      results = Some [\<lparr>content = None, error = None, url = None, title = None\<rparr>],
      task_error = None\<rparr>"

definition cancelled_abc :: CancelResponse where
  "cancelled_abc = \<lparr>cancel_status = ascii ''cancelled'', cancel_task_id = ascii ''abc''\<rparr>"

definition polling_abc :: page where
  \<comment> \<open>the page while task \<open>abc\<close> is being polled by interval 1\<close>
  "polling_abc =
     \<lparr>task = ascii ''go'',
      messages =
        [\<lparr>msg_type = User, msg_content = ascii ''go'', msg_timestamp = 2,
          msg_id = message_id (stamp 2)\<rparr>,
         \<lparr>msg_type = System, msg_content = opening_text, msg_timestamp = 3,
          msg_id = message_id (stamp 3)\<rparr>],
      loading = True, taskId = Some (ascii ''abc''), showBrowser = True,
      intervals = [\<lparr>handle = 1, newTaskId = ascii ''abc'',
                    loadingMsgId = message_id (stamp 3)\<rparr>],
      next_handle = 2, requests = [], polls = [], next_ticket = 1\<rparr>"


definition visible_body :: "jsstring \<Rightarrow> task_body" where
  \<comment> \<open>the body that \<open>handleRunWithVisibleBrowser\<close> posts for the text \<open>t\<close>\<close>
  "visible_body t =
     \<lparr>body_task = t, body_headless = False, body_model = default_model,
      body_provider = default_provider, body_max_steps = Num 5, body_use_vision = True\<rparr>"


section \<open>Auxiliary facts\<close>

lemma dropWhile_all: "list_all P s \<Longrightarrow> dropWhile P s = []"
  by (induction s) auto

lemma trim_whitespace: "list_all is_whitespace s \<Longrightarrow> trim s = []"
  by (simp add: trim_def dropWhile_all)



lemma message_id_stamp:
  "message_id (stamp 2) = ascii ''msg-2-k3x''"
  "message_id (stamp 3) = ascii ''msg-3-k3x''"
  "message_id (stamp 4) = ascii ''msg-4-k3x''"
  "message_id (stamp 8) = ascii ''msg-8-k3x''"
  "message_id (stamp 9) = ascii ''msg-9-k3x''"
  by (simp_all add: message_id_def stamp_def ascii_def)

lemma join_map_Some: "join sep (map Some xs) = separated_by sep xs"
proof (induction xs rule: induct_list012)
  case 1
  show ?case by simp
next
  case (2 x)
  show ?case by simp
next
  case (3 x y zs)
  then show ?case by simp
qed

lemma map_content_filter:
  "map content (filter (\<lambda>step. truthy_opt truthy_string (content step)) rs)
     = map Some (nonempty_contents rs)"
  by (induction rs)
     (auto simp: nonempty_contents_def truthy_opt_def truthy_string_def split: option.splits)








lemma getTaskStatus_request: "fst (getTaskStatus tid response) = GET_task tid"
  by (simp add: getTaskStatus_def)

lemma statusSettled_pending:
  assumes "status r \<noteq> ascii ''completed''" and "status r \<noteq> ascii ''failed''"
  shows "statusSettled iv e (Inr r) p = p"
  using assms by (simp add: statusSettled_def)

lemma statusSettled_terminal:
  assumes "status r = ascii ''completed'' \<or> status r = ascii ''failed''"
  shows "statusSettled iv e (Inr r) p =
           p\<lparr>messages := filter (\<lambda>msg. msg_id msg \<noteq> loadingMsgId iv) (messages p) @
                [\<lparr>msg_type = Assistant,
                  msg_content =
                    (if combineResults (results r) \<noteq> [] then combineResults (results r)
                     else case task_error r of
                            None \<Rightarrow> no_output_text
                          | Some err \<Rightarrow> if err \<noteq> [] then err else no_output_text),
                  msg_timestamp = new_date e, msg_id = message_id e\<rparr>],
              task := [], loading := False, taskId := None,
              intervals := filter (\<lambda>other. handle other \<noteq> handle iv) (intervals p)\<rparr>"
  using assms
  by (auto simp: statusSettled_def addMessage_def removeMessage_def
        clearInterval_def or_default_def js_or_def truthy_opt_def truthy_string_def
        Let_def split: option.splits)

lemma intervalCallback_pending:
  assumes "status r \<noteq> ascii ''completed''" and "status r \<noteq> ascii ''failed''"
  shows "intervalCallback iv e (Resolved r) p =
           p\<lparr>requests := requests p @ [GET_task (newTaskId iv)]\<rparr>"
  by (simp add: intervalCallback_def getTaskStatus_def send_def statusSettled_pending [OF assms])

lemma intervalCallback_terminal:
  assumes "status r = ascii ''completed'' \<or> status r = ascii ''failed''"
  shows "intervalCallback iv e (Resolved r) p =
           p\<lparr>messages := filter (\<lambda>msg. msg_id msg \<noteq> loadingMsgId iv) (messages p) @
                [\<lparr>msg_type = Assistant,
                  msg_content =
                    (if combineResults (results r) \<noteq> [] then combineResults (results r)
                     else case task_error r of
                            None \<Rightarrow> no_output_text
                          | Some err \<Rightarrow> if err \<noteq> [] then err else no_output_text),
                  msg_timestamp = new_date e, msg_id = message_id e\<rparr>],
              task := [], loading := False, taskId := None,
              intervals := filter (\<lambda>other. handle other \<noteq> handle iv) (intervals p),
              requests := requests p @ [GET_task (newTaskId iv)]\<rparr>"
  by (simp add: intervalCallback_def getTaskStatus_def send_def statusSettled_terminal [OF assms])

text \<open>
  When the answer to a poll arrives before anything else happens, the two halves of the
  callback together are the whole callback; only the ticket counter has moved on.
\<close>

lemma answered_at_once:
  assumes "\<forall>w \<in> set (polls p). ticket w \<noteq> next_ticket p"
  shows "statusAnswered \<lparr>ticket = next_ticket p, caller = iv\<rparr> e response (statusRequested iv p)
           = (intervalCallback iv e response p)\<lparr>next_ticket := Suc (next_ticket p)\<rparr>"
proof -
  have kept: "filter (\<lambda>other. ticket other \<noteq> next_ticket p) (polls p) = polls p"
    using assms by (induction "polls p") (auto simp: filter_id_conv)
  show ?thesis
  proof (cases response)
    case Rejected
    then show ?thesis
      by (simp add: statusAnswered_def statusRequested_def intervalCallback_def
            getTaskStatus_def send_def statusSettled_def addMessage_def removeMessage_def
            clearInterval_def Let_def kept)
  next
    case (Resolved r)
    show ?thesis
    proof (cases "status r = ascii ''completed'' \<or> status r = ascii ''failed''")
      case True
      then show ?thesis
        by (simp add: Resolved statusAnswered_def statusRequested_def getTaskStatus_def
              send_def Let_def kept intervalCallback_terminal [OF True]
              statusSettled_terminal [OF True]
              del: disj_not1)
    next
      case False
      then have pending: "status r \<noteq> ascii ''completed''" "status r \<noteq> ascii ''failed''"
        by simp_all
      show ?thesis
        by (simp add: Resolved statusAnswered_def statusRequested_def getTaskStatus_def
              send_def Let_def kept intervalCallback_pending [OF pending]
              statusSettled_pending [OF pending])
    qed
  qed
qed

text \<open>\<open>handleCancel\<close> has no access to the interval: it leaves every interval running.\<close>

lemma handleCancel_intervals: "intervals (handleCancel e response p) = intervals p"
  by (cases response)
     (simp_all add: handleCancel_def cancelTask_def addMessage_def send_def Let_def
        split: option.splits)

section \<open>The agent client\<close>

text \<open>
  C2, as amended. \<open>combineResults\<close> is a total function of its argument alone, so it
  cannot throw and two calls on one input agree. For absent and for empty results it
  returns the fixed text of the source, "Net rezul'tatov" (\<open>no_results_text\<close>); for
  every non-empty sequence it returns the contents of exactly the steps that have a
  non-empty content, in input order, joined by \<open>"\n\n"\<close>.
\<close>

theorem combineResults_joins_contents:
  "combineResults None = no_results_text \<and>
   combineResults (Some []) = no_results_text \<and>
   (rs \<noteq> [] \<longrightarrow>
      combineResults (Some rs) = separated_by [0xA, 0xA] (nonempty_contents rs))"
  by (simp add: combineResults_def map_content_filter join_map_Some blank_line_def)

theorem combineResults_joins_contents_witness:
  "[step_with (Some (ascii ''a'')) None, step_with None (Some (ascii ''x'')),
    step_with (Some (ascii ''b'')) None] \<noteq> [] \<and>
   combineResults
     (Some [step_with (Some (ascii ''a'')) None, step_with None (Some (ascii ''x'')),
            step_with (Some (ascii ''b'')) None])
     = ascii ''a'' @ [0xA, 0xA] @ ascii ''b''"
  using combineResults_joins_contents
    [of "[step_with (Some (ascii ''a'')) None, step_with None (Some (ascii ''x'')),
          step_with (Some (ascii ''b'')) None]"]
  by (simp add: nonempty_contents_def step_with_def ascii_def)

text \<open>
  C2 as written names the English text "No results"; the text that the code returns for
  absent results is a different string.
\<close>

theorem combineResults_literal_counterexample:
  "combineResults None \<noteq> ascii ''No results''"
  by (simp add: combineResults_def no_results_text_def ascii_def)

text \<open>
  C4, as amended. The body of \<open>runTask\<close> carries the default \<open>model\<close>, \<open>provider\<close>
  and \<open>max_steps\<close> when the option is unset or falsy (the empty string; 0 or NaN), and
  the value of the caller otherwise. The body of \<open>createTask\<close> carries
  \<open>use_vision = true\<close> unless the option is explicitly \<open>false\<close>.
\<close>

theorem request_defaults:
  "(\<exists>b. fst (runTask t h (Some opts) r) = POST_run b \<and>
        body_task b = t \<and> body_headless b = (case h of None \<Rightarrow> True | Some v \<Rightarrow> v) \<and>
        (model opts = None \<or> model opts = Some [] \<longrightarrow>
           body_model b = ascii ''gpt-4.1-nano-2025-04-14'') \<and>
        (\<forall>m. model opts = Some m \<and> m \<noteq> [] \<longrightarrow> body_model b = m) \<and>
        (provider opts = None \<or> provider opts = Some [] \<longrightarrow>
           body_provider b = ascii ''openai'') \<and>
        (\<forall>m. provider opts = Some m \<and> m \<noteq> [] \<longrightarrow> body_provider b = m) \<and>
        (max_steps opts = None \<or> max_steps opts = Some (Num 0) \<or> max_steps opts = Some NaN
           \<longrightarrow> body_max_steps b = Num 5) \<and>
        (\<forall>n. max_steps opts = Some (Num n) \<and> n \<noteq> 0 \<longrightarrow> body_max_steps b = Num n)) \<and>
   (\<exists>b. fst (runTask t h None r) = POST_run b \<and>
        body_model b = ascii ''gpt-4.1-nano-2025-04-14'' \<and>
        body_provider b = ascii ''openai'' \<and> body_max_steps b = Num 5) \<and>
   (\<exists>b. fst (createTask t h (Some topts) r') = POST_task b \<and>
        body_use_vision b = (use_vision topts \<noteq> Some False)) \<and>
   (\<exists>b. fst (createTask t h None r') = POST_task b \<and> body_use_vision b = True)"
  by (auto simp: runTask_def createTask_def or_default_def truthy_string_def
        default_model_def default_provider_def default_max_steps_def)

theorem request_defaults_witness:
  "model \<lparr>model = Some (ascii ''m1''), provider = None, max_steps = Some (Num 7)\<rparr>
     = Some (ascii ''m1'') \<and> ascii ''m1'' \<noteq> [] \<and>
   provider \<lparr>model = Some (ascii ''m1''), provider = None, max_steps = Some (Num 7)\<rparr> = None \<and>
   max_steps \<lparr>model = Some (ascii ''m1''), provider = None, max_steps = Some (Num 7)\<rparr>
     = Some (Num 7) \<and> (7::int) \<noteq> 0 \<and>
   fst (runTask (ascii ''go'') (Some False)
          (Some \<lparr>model = Some (ascii ''m1''), provider = None, max_steps = Some (Num 7)\<rparr>)
          Rejected)
     = POST_run \<lparr>body_task = ascii ''go'', body_headless = False,
                 body_model = ascii ''m1'', body_provider = ascii ''openai'',
                 body_max_steps = Num 7\<rparr>"
proof -
  let ?opts = "\<lparr>model = Some (ascii ''m1''), provider = None, max_steps = Some (Num 7)\<rparr>"
  have nonempty: "ascii ''m1'' \<noteq> []"
    by (simp add: ascii_def)
  from request_defaults [of "ascii ''go''" "Some False" ?opts Rejected]
  obtain b where b: "fst (runTask (ascii ''go'') (Some False) (Some ?opts) Rejected) = POST_run b"
    "body_task b = ascii ''go''" "body_headless b = False"
    "body_model b = ascii ''m1''" "body_provider b = ascii ''openai''"
    "body_max_steps b = Num 7"
    using nonempty by auto
  have "b = \<lparr>body_task = ascii ''go'', body_headless = False,
                 body_model = ascii ''m1'', body_provider = ascii ''openai'',
                 body_max_steps = Num 7\<rparr>"
    using b(2-6) by (cases b) simp
  with b(1) nonempty show ?thesis
    by simp
qed

text \<open>
  C4 as written lets the body carry the value of the caller whenever the option is set.
  With \<open>model: ""\<close> and \<open>max_steps: 0\<close> both options are set, and the body carries the
  defaults.
\<close>

theorem request_defaults_counterexample:
  "fst (runTask (ascii ''go'') None
          (Some \<lparr>model = Some [], provider = None, max_steps = Some (Num 0)\<rparr>) Rejected)
     = POST_run \<lparr>body_task = ascii ''go'', body_headless = True,
                 body_model = ascii ''gpt-4.1-nano-2025-04-14'',
                 body_provider = ascii ''openai'',
                 body_max_steps = Num 5\<rparr>"
  by (simp add: runTask_def or_default_def truthy_string_def
        default_model_def default_provider_def default_max_steps_def)

section \<open>The synchronous path\<close>







text \<open>
  C10. When the text is empty or consists of whitespace only, \<open>handleRun\<close> and
  \<open>handleRunWithVisibleBrowser\<close> return at once: the page, with its messages, its
  intervals and the log of requests, is unchanged.
\<close>

theorem blank_input_noop:
  assumes "list_all is_whitespace (task p)"
  shows "handleRun e1 e2 e3 r p = p \<and> handleRunWithVisibleBrowser e1 e2 e3 r' p = p"
  using trim_whitespace [OF assms]
  by (simp add: handleRun_def handleRunWithVisibleBrowser_def truthy_string_def)

theorem blank_input_noop_witness:
  "list_all is_whitespace (task (initial\<lparr>task := [0x20, 0x9, 0xA]\<rparr>)) \<and>
   handleRun (stamp 2) (stamp 3) (stamp 4) (Resolved \<lparr>result = ascii ''ok''\<rparr>)
     (initial\<lparr>task := [0x20, 0x9, 0xA]\<rparr>) = initial\<lparr>task := [0x20, 0x9, 0xA]\<rparr> \<and>
   handleRunWithVisibleBrowser (stamp 2) (stamp 3) (stamp 4) (Resolved created_abc)
     (initial\<lparr>task := [0x20, 0x9, 0xA]\<rparr>) = initial\<lparr>task := [0x20, 0x9, 0xA]\<rparr>"
proof -
  have h: "list_all is_whitespace (task (initial\<lparr>task := [0x20, 0x9, 0xA]\<rparr>))"
    by (simp add: is_whitespace_def)
  from blank_input_noop [OF h] h show ?thesis
    by simp
qed

section \<open>The asynchronous path\<close>

text \<open>
  C3, as amended. When a poll finds the status \<open>completed\<close> or \<open>failed\<close>, the callback
  adds an assistant message whose content \<open>c\<close> is the first non-empty text among
  \<open>combineResults(results)\<close>, the \<open>error\<close> of the snapshot and the fixed text of the
  source, "Zadacha vypolnena bez rezul'tatov" (\<open>no_output_text\<close>). In the same step the
  interval is cleared, the transient message is removed, the task id and the input are
  cleared and \<open>loading\<close> is off.
\<close>

theorem terminal_status:
  assumes terminal: "status r = ascii ''completed'' \<or> status r = ascii ''failed''"
    and chain: "find (\<lambda>s. s \<noteq> [])
                  [combineResults (results r),
                   case task_error r of None \<Rightarrow> [] | Some err \<Rightarrow> err,
                   no_output_text] = Some c"
  shows "intervalCallback iv e (Resolved r) p =
           p\<lparr>messages := filter (\<lambda>msg. msg_id msg \<noteq> loadingMsgId iv) (messages p) @
                [\<lparr>msg_type = Assistant, msg_content = c, msg_timestamp = new_date e,
                  msg_id = message_id e\<rparr>],
              task := [], loading := False, taskId := None,
              intervals := filter (\<lambda>other. handle other \<noteq> handle iv) (intervals p),
              requests := requests p @ [GET_task (newTaskId iv)]\<rparr>"
proof -
  have "c = (if combineResults (results r) \<noteq> [] then combineResults (results r)
             else case task_error r of
                    None \<Rightarrow> no_output_text
                  | Some err \<Rightarrow> if err \<noteq> [] then err else no_output_text)"
    using chain by (auto simp: no_output_text_def split: option.splits if_splits)
  then show ?thesis
    by (simp add: intervalCallback_terminal [OF terminal])
qed

theorem terminal_status_witness:
  "(status completed_abc = ascii ''completed'' \<or> status completed_abc = ascii ''failed'') \<and>
   find (\<lambda>s. s \<noteq> [])
     [combineResults (results completed_abc),
      case task_error completed_abc of None \<Rightarrow> [] | Some err \<Rightarrow> err,
      no_output_text] = Some (ascii ''done'') \<and>
   map msg_content
     (messages (intervalCallback
                  \<lparr>handle = 1, newTaskId = ascii ''abc'', loadingMsgId = message_id (stamp 3)\<rparr>
                  (stamp 4) (Resolved completed_abc) polling_abc))
     = [ascii ''go'', ascii ''done''] \<and>
   intervals (intervalCallback
                \<lparr>handle = 1, newTaskId = ascii ''abc'', loadingMsgId = message_id (stamp 3)\<rparr>
                (stamp 4) (Resolved completed_abc) polling_abc) = [] \<and>
   taskId (intervalCallback
             \<lparr>handle = 1, newTaskId = ascii ''abc'', loadingMsgId = message_id (stamp 3)\<rparr>
             (stamp 4) (Resolved completed_abc) polling_abc) = None"
proof -
  let ?iv = "\<lparr>handle = 1, newTaskId = ascii ''abc'', loadingMsgId = message_id (stamp 3)\<rparr>"
  have h1: "status completed_abc = ascii ''completed'' \<or> status completed_abc = ascii ''failed''"
    by (simp add: completed_abc_def)
  have combined: "combineResults (results completed_abc) = ascii ''done''"
    by (simp add: completed_abc_def combineResults_def truthy_opt_def truthy_string_def
          ascii_def)
  have h2: "find (\<lambda>s. s \<noteq> [])
     [combineResults (results completed_abc),
      case task_error completed_abc of None \<Rightarrow> [] | Some err \<Rightarrow> err,
      no_output_text] = Some (ascii ''done'')"
    by (simp add: combined) (simp add: ascii_def)
  have ids: "message_id (stamp 2) \<noteq> message_id (stamp 3)"
    by (simp add: message_id_stamp) (simp add: ascii_def)
  from terminal_status [OF h1 h2, of ?iv "stamp 4" polling_abc] h1 h2 ids
  show ?thesis
    by (simp add: polling_abc_def)
qed

text \<open>
  C3 as written names the English text "Task completed with no results"; for a finished
  task without any content and without an error text, the message that the code adds
  has a different content.
\<close>

theorem terminal_status_literal_counterexample:
  "map msg_content
     (messages (intervalCallback
                  \<lparr>handle = 1, newTaskId = ascii ''abc'', loadingMsgId = message_id (stamp 3)\<rparr>
                  (stamp 4) (Resolved silent_abc) polling_abc))
     = [ascii ''go'', no_output_text] \<and>
   no_output_text \<noteq> ascii ''Task completed with no results''"
proof -
  have ids: "message_id (stamp 2) \<noteq> message_id (stamp 3)"
    by (simp add: message_id_stamp) (simp add: ascii_def)
  have silent: "combineResults (results silent_abc) = []"
    by (simp add: silent_abc_def combineResults_def truthy_opt_def)
  have terminal: "status silent_abc = ascii ''completed'' \<or> status silent_abc = ascii ''failed''"
    by (simp add: silent_abc_def)
  have "task_error silent_abc = None"
    by (simp add: silent_abc_def)
  with ids silent have "map msg_content
     (messages (intervalCallback
                  \<lparr>handle = 1, newTaskId = ascii ''abc'', loadingMsgId = message_id (stamp 3)\<rparr>
                  (stamp 4) (Resolved silent_abc) polling_abc))
     = [ascii ''go'', no_output_text]"
    by (simp add: intervalCallback_terminal [OF terminal] polling_abc_def)
  moreover have "no_output_text \<noteq> ascii ''Task completed with no results''"
    by (simp add: no_output_text_def ascii_def)
  ultimately show ?thesis
    by simp
qed




section \<open>Cancelling\<close>

text \<open>
  C8. When \<open>cancelTask\<close> throws, \<open>handleCancel\<close> adds the system error message and
  changes nothing else of the page: \<open>loading\<close> and the task id keep their values and no
  message is removed. The request has been sent.
\<close>

theorem handleCancel_failure:
  assumes "taskId p = Some tid" and "tid \<noteq> []"
  shows "handleCancel e Rejected p =
           p\<lparr>messages := messages p @
                [\<lparr>msg_type = System, msg_content = cancel_failed_text,
                  msg_timestamp = new_date e, msg_id = message_id e\<rparr>],
              requests := requests p @ [DELETE_task tid]\<rparr>"
  using assms
  by (simp add: handleCancel_def cancelTask_def addMessage_def send_def truthy_string_def
        Let_def)

theorem handleCancel_failure_witness:
  "taskId polling_abc = Some (ascii ''abc'') \<and> ascii ''abc'' \<noteq> [] \<and>
   loading (handleCancel (stamp 4) Rejected polling_abc) = True \<and>
   taskId (handleCancel (stamp 4) Rejected polling_abc) = Some (ascii ''abc'') \<and>
   map msg_type (messages (handleCancel (stamp 4) Rejected polling_abc))
     = [User, System, System]"
proof -
  have h1: "taskId polling_abc = Some (ascii ''abc'')"
    by (simp add: polling_abc_def)
  have h2: "ascii ''abc'' \<noteq> []"
    by (simp add: ascii_def)
  from handleCancel_failure [OF h1 h2, of "stamp 4"] h1 h2 show ?thesis
    by (simp add: polling_abc_def)
qed

text \<open>
  C1. The claim is that after a successful cancel the stored task id is empty and the
  status is never polled again. The code clears the task id, and leaves the interval
  running: in the run below the task \<open>abc\<close> is created and cancelled, and the interval
  fires twice afterwards, each time sending a status request for \<open>abc\<close>.
\<close>

theorem cancel_keeps_polling:
  "taskId (run [Change (ascii ''go''), Toggle,
                SubmitVisible (stamp 2) (stamp 3) (stamp 4) (Resolved created_abc),
                Cancel (stamp 5) (Resolved cancelled_abc)] initial) = None
   \<and> requests (run [Change (ascii ''go''), Toggle,
                SubmitVisible (stamp 2) (stamp 3) (stamp 4) (Resolved created_abc),
                Cancel (stamp 5) (Resolved cancelled_abc),
                Tick 1, Answer 1 (stamp 6) (Resolved running_abc),
                Tick 1, Answer 2 (stamp 7) (Resolved running_abc)] initial)
     = [POST_task (visible_body (ascii ''go'')), DELETE_task (ascii ''abc''),
        GET_task (ascii ''abc''), GET_task (ascii ''abc'')]"
  by code_simp

text \<open>
  C9. The claim is that no reachable state has more than one running interval. After a
  successful cancel \<open>loading\<close> is off while the interval still runs, so the run button
  is enabled again: a second submission starts a second interval beside the first.
\<close>

theorem two_intervals_reachable:
  "map handle (intervals (run [Change (ascii ''go''), Toggle,
                SubmitVisible (stamp 2) (stamp 3) (stamp 4) (Resolved created_abc),
                Cancel (stamp 5) (Resolved cancelled_abc),
                SubmitVisible (stamp 6) (stamp 7) (stamp 8) (Resolved created_def)] initial))
     = [1, 2]"
  by code_simp


end
